theory Spec2Isabelle
  imports Main "HOL-Library.Word"
begin

section \<open>Values of the program\<close>

text \<open>
  Bytes are the elements of a \<^verbatim>\<open>Uint8Array\<close>. JavaScript strings are kept as
  \<^typ>\<open>string\<close>; no property below depends on the width of a code unit.
\<close>

type_synonym byte = "8 word"

text \<open>
  Every \<^verbatim>\<open>throw\<close> of the program and of the platform functions it calls is a value.
  \<open>Thrown m\<close> stands for an exception raised outside this repository (the SDK, the
  transport, \<^verbatim>\<open>JSON.parse\<close>, \<^verbatim>\<open>atob\<close>, the file reader); \<open>m\<close> is its
  \<^verbatim>\<open>message\<close> property when it has one. \<open>RangeError\<close> is the one the program can
  provoke itself, in \<^verbatim>\<open>new Array\<close> and in the \<^verbatim>\<open>DataView\<close> setters; it carries the
  engine's message.
\<close>

datatype js_error =
    ApiKeyNotFound
  | NoAnalysisResponse
  | NoTranslationResponse
  | ModelRefused string
  | NoAudioData string
  | RangeError string
  | Thrown "string option"

fun message :: "js_error \<Rightarrow> string option" where
  "message ApiKeyNotFound =
     Some ''API Key not found. Please set REACT_APP_GEMINI_API_KEY or ensure process.env.API_KEY is available.''"
| "message NoAnalysisResponse = Some ''No response from analysis model''"
| "message NoTranslationResponse = Some ''No response from translation model''"
| "message (ModelRefused t) = Some (''Model refused or failed to generate audio: '' @ t)"
| "message (NoAudioData r) =
     Some (''No audio data generated. Model finish reason: '' @ r @ ''.'')"
| "message (RangeError m) = Some m"
| "message (Thrown m) = m"

text \<open>Sequencing of steps that may throw: the first exception ends the sequence.\<close>

definition and_then :: "js_error + 'a \<Rightarrow> ('a \<Rightarrow> js_error + 'b) \<Rightarrow> js_error + 'b" where
  "and_then r f = (case r of Inl e \<Rightarrow> Inl e | Inr v \<Rightarrow> f v)"

text \<open>
  A function of the platform or of the remote service returns its value or the
  \<^verbatim>\<open>message\<close> of what it threw; \<open>foreign\<close> turns the latter into an exception of the
  program.
\<close>

definition foreign :: "string option + 'a \<Rightarrow> js_error + 'a" where
  "foreign r = (case r of Inl m \<Rightarrow> Inl (Thrown m) | Inr v \<Rightarrow> Inr v)"

text \<open>
  The browser's object URLs are opaque strings; the model identifies such a URL with the
  resource it was created from. \<^verbatim>\<open>URL.createObjectURL\<close> enters the URL in a store of the
  browser, where it keeps its resource alive until \<^verbatim>\<open>URL.revokeObjectURL\<close> takes it out.
\<close>

record File =
  name :: string
  file_size :: nat
  mime_type :: string

datatype object_url = FileUrl File | BlobUrl "byte list" string

section \<open>services/gemini.ts: the WAV container\<close>

subsection \<open>DataView writes\<close>

text \<open>
  A \<^verbatim>\<open>DataView\<close> over an \<^verbatim>\<open>ArrayBuffer\<close> is the list of its bytes. A setter throws
  a \<^verbatim>\<open>RangeError\<close> when the bytes it writes do not fit, converts its argument modulo the
  width of the field, and stores the low byte first when \<open>littleEndian\<close> is set.
\<close>

definition out_of_bounds :: string where
  "out_of_bounds = ''Offset is outside the bounds of the DataView''"

definition ArrayBuffer :: "nat \<Rightarrow> byte list" where
  "ArrayBuffer n = replicate n 0"

definition setUint8 :: "nat \<Rightarrow> nat \<Rightarrow> byte list \<Rightarrow> js_error + byte list" where
  "setUint8 byteOffset v view =
     (if byteOffset + 1 > length view then Inl (RangeError out_of_bounds)
      else Inr (view[byteOffset := of_nat (v mod 256)]))"

definition setUint16 :: "nat \<Rightarrow> nat \<Rightarrow> bool \<Rightarrow> byte list \<Rightarrow> js_error + byte list" where
  "setUint16 byteOffset v littleEndian view =
     (if byteOffset + 2 > length view then Inl (RangeError out_of_bounds)
      else let w = v mod 65536;
               lo = of_nat (w mod 256);
               hi = of_nat (w div 256 mod 256)
           in if littleEndian
              then Inr (view[byteOffset := lo, byteOffset + 1 := hi])
              else Inr (view[byteOffset := hi, byteOffset + 1 := lo]))"

definition setUint32 :: "nat \<Rightarrow> nat \<Rightarrow> bool \<Rightarrow> byte list \<Rightarrow> js_error + byte list" where
  "setUint32 byteOffset v littleEndian view =
     (if byteOffset + 4 > length view then Inl (RangeError out_of_bounds)
      else let w = v mod 4294967296;
               b0 = of_nat (w mod 256);
               b1 = of_nat (w div 256 mod 256);
               b2 = of_nat (w div 65536 mod 256);
               b3 = of_nat (w div 16777216 mod 256)
           in if littleEndian
              then Inr (view[byteOffset := b0, byteOffset + 1 := b1,
                             byteOffset + 2 := b2, byteOffset + 3 := b3])
              else Inr (view[byteOffset := b3, byteOffset + 1 := b2,
                             byteOffset + 2 := b1, byteOffset + 3 := b0]))"

text \<open>The loop of \<^verbatim>\<open>writeString\<close>: one \<^verbatim>\<open>setUint8\<close> per character, at \<open>offset + i\<close>.\<close>

fun writeString :: "byte list \<Rightarrow> nat \<Rightarrow> string \<Rightarrow> js_error + byte list" where
  "writeString view offset [] = Inr view"
| "writeString view offset (c # cs) =
     and_then (setUint8 offset (of_char c) view) (\<lambda>view'. writeString view' (Suc offset) cs)"

subsection \<open>createWavUrl\<close>

definition sampleRate :: nat where "sampleRate = 24000"
definition numChannels :: nat where "numChannels = 1"
definition bitsPerSample :: nat where "bitsPerSample = 16"

text \<open>Lines 148 to 169: the header, as a function of \<^verbatim>\<open>pcmData.length\<close>.\<close>

definition wav_header :: "nat \<Rightarrow> js_error + byte list" where
  "wav_header pcm_length =
     and_then (writeString (ArrayBuffer 44) 0 ''RIFF'') (\<lambda>view.
     and_then (setUint32 4 (36 + pcm_length) True view) (\<lambda>view.
     and_then (writeString view 8 ''WAVE'') (\<lambda>view.
     and_then (writeString view 12 ''fmt '') (\<lambda>view.
     and_then (setUint32 16 16 True view) (\<lambda>view.
     and_then (setUint16 20 1 True view) (\<lambda>view.
     and_then (setUint16 22 numChannels True view) (\<lambda>view.
     and_then (setUint32 24 sampleRate True view) (\<lambda>view.
     and_then (setUint32 28 (sampleRate * numChannels * 2) True view) (\<lambda>view.
     and_then (setUint16 32 (numChannels * 2) True view) (\<lambda>view.
     and_then (setUint16 34 bitsPerSample True view) (\<lambda>view.
     and_then (writeString view 36 ''data'') (\<lambda>view.
     setUint32 40 pcm_length True view))))))))))))"

text \<open>
  \<^verbatim>\<open>atob\<close> is the browser's base64 decoder: it throws on malformed input and otherwise
  returns a binary string, each of whose code units is one byte. It is a parameter of the
  model. The copying loop reads each code unit as a number and the \<^verbatim>\<open>Uint8Array\<close> stores
  it as a byte. The blob is the header followed by the payload.

  Building the array of numbers has a limit. The language lets \<^verbatim>\<open>new Array(n)\<close> throw a
  \<^verbatim>\<open>RangeError\<close> unless \<open>n < 2\<^sup>3\<^sup>2\<close>; an engine gives up earlier: V8 builds no array of
  \<open>2\<^sup>2\<^sup>7\<close> elements. The engine's limit is the parameter \<open>array_limit\<close>: from that length
  on, and from \<open>2\<^sup>3\<^sup>2\<close> on in any case, the function throws.
\<close>

definition createWavUrl ::
  "nat \<Rightarrow> (string \<Rightarrow> string option + byte list) \<Rightarrow> string \<Rightarrow> js_error + object_url" where
  "createWavUrl array_limit atob pcmBase64 =
     and_then (foreign (atob pcmBase64)) (\<lambda>byteCharacters.
       if length byteCharacters \<ge> min array_limit 4294967296
       then Inl (RangeError ''Invalid array length'')
       else let byteNumbers = map unat byteCharacters;
                pcmData = map of_nat byteNumbers :: byte list
            in and_then (wav_header (length pcmData)) (\<lambda>header.
                 Inr (BlobUrl (header @ pcmData) ''audio/wav'')))"



section \<open>types.ts\<close>

datatype AppState = IDLE | ANALYZING | LYRICS_REVIEW | DUBBING | COMPLETE | ERROR

text \<open>
  \<open>gender\<close> is declared as a union of three literals, but the value is whatever
  \<^verbatim>\<open>JSON.parse\<close> returned, so it is a string here. \<open>bpm\<close> is a JSON number that the
  program only passes on.
\<close>

record AnalysisResult =
  language :: string
  genre :: string
  bpm :: int
  emotion :: string
  gender :: string
  lyrics :: "string list"
  summary :: string

record TranslatedLine =
  original :: string
  translated :: string

text \<open>The fields \<^verbatim>\<open>file\<close> and \<^verbatim>\<open>translations\<close> carry a prime: both words are reserved.\<close>

record SongData =
  file' :: "File option"
  audioUrl :: "object_url option"
  analysis :: "AnalysisResult option"
  translations' :: "TranslatedLine list"
  targetLanguage :: string
  dubbedAudioUrl :: "object_url option"

definition TARGET_LANGUAGES :: "string list" where
  "TARGET_LANGUAGES =
     [''Spanish'', ''French'', ''German'', ''Japanese'', ''Korean'', ''Chinese'', ''Italian'',
      ''Portuguese'']"

definition VOICES_MALE :: string where "VOICES_MALE = ''Fenrir''"
definition VOICES_FEMALE :: string where "VOICES_FEMALE = ''Kore''"
definition VOICES_NEUTRAL :: string where "VOICES_NEUTRAL = ''Puck''"

section \<open>services/gemini.ts: the three operations\<close>

subsection \<open>The world outside the program\<close>

text \<open>
  The shape of a speech response, as far as \<^verbatim>\<open>generateDubbedAudio\<close> reads it. Every
  property may be missing. The field \<^verbatim>\<open>text\<close> of a part is named \<open>part_text\<close>.
\<close>

record InlineData =
  mimeType :: "string option"
  data :: "string option"

record Part =
  part_text :: "string option"
  inlineData :: "InlineData option"

record Content =
  parts :: "Part list option"

record Candidate =
  content :: "Content option"
  finishReason :: "string option"

record Response =
  candidates :: "Candidate list option"

record SpeechRequest =
  model :: string
  contents_text :: string
  responseModalities :: "string list"
  prebuiltVoiceName :: string
  safetySettings :: "(string \<times> string) list"

text \<open>
  What the program cannot compute itself is a parameter: the configured key, the file
  reader, the replies of the remote models, \<^verbatim>\<open>JSON.parse\<close> with its unchecked cast,
  \<^verbatim>\<open>atob\<close>, and the engine's limit on the length of an array.
\<close>

record env =
  API_KEY :: "string option"
  array_limit :: nat
  read_file :: "File \<Rightarrow> string option + string"
  analysis_model :: "string \<Rightarrow> string \<Rightarrow> string option + string option"
  translation_model ::
    "string list \<Rightarrow> string \<Rightarrow> string \<Rightarrow> int \<Rightarrow> string option + string option"
  speech_model :: "SpeechRequest \<Rightarrow> string option + Response"
  parse_analysis :: "string \<Rightarrow> string option + AnalysisResult"
  parse_translations :: "string \<Rightarrow> string option + TranslatedLine list"
  atob :: "string \<Rightarrow> string option + byte list"

text \<open>JavaScript truthiness of an optional string: present and not empty.\<close>

definition truthy :: "string option \<Rightarrow> bool" where
  "truthy s = (case s of None \<Rightarrow> False | Some t \<Rightarrow> t \<noteq> [])"

text \<open>\<^verbatim>\<open>a || b\<close> on an optional string and a default.\<close>

definition or_default :: "string option \<Rightarrow> string \<Rightarrow> string" where
  "or_default s d = (case s of None \<Rightarrow> d | Some t \<Rightarrow> if t = [] then d else t)"

subsection \<open>getAiClient, fileToGenerativePart, analyzeAudio, translateLyrics\<close>

definition getAiClient :: "env \<Rightarrow> js_error + unit" where
  "getAiClient e = (if \<not> truthy (API_KEY e) then Inl ApiKeyNotFound else Inr ())"

definition fileToGenerativePart :: "env \<Rightarrow> File \<Rightarrow> js_error + string" where
  "fileToGenerativePart e f = foreign (read_file e f)"

definition analyzeAudio :: "env \<Rightarrow> string \<Rightarrow> string \<Rightarrow> js_error + AnalysisResult" where
  "analyzeAudio e audioBase64 mimeType' =
     and_then (getAiClient e) (\<lambda>ai.
     and_then (foreign (analysis_model e audioBase64 mimeType')) (\<lambda>response_text.
       case response_text of
         None \<Rightarrow> Inl NoAnalysisResponse
       | Some t \<Rightarrow> if t = [] then Inl NoAnalysisResponse else foreign (parse_analysis e t)))"

definition translateLyrics ::
  "env \<Rightarrow> string list \<Rightarrow> string \<Rightarrow> string \<Rightarrow> int \<Rightarrow> js_error + TranslatedLine list" where
  "translateLyrics e lyrics' targetLanguage' originalLanguage bpm' =
     and_then (getAiClient e) (\<lambda>ai.
     and_then (foreign (translation_model e lyrics' targetLanguage' originalLanguage bpm')) (\<lambda>response_text.
       case response_text of
         None \<Rightarrow> Inl NoTranslationResponse
       | Some t \<Rightarrow> if t = [] then Inl NoTranslationResponse else foreign (parse_translations e t)))"

subsection \<open>generateDubbedAudio\<close>

text \<open>
  \<^verbatim>\<open>Array.prototype.join\<close>: the result starts empty; before every element but the first
  the separator is appended, then the element.
\<close>

fun join_loop :: "string \<Rightarrow> string \<Rightarrow> nat \<Rightarrow> string list \<Rightarrow> string" where
  "join_loop sep R k [] = R"
| "join_loop sep R k (x # xs) =
     join_loop sep ((if k > 0 then R @ sep else R) @ x) (Suc k) xs"

definition join :: "string list \<Rightarrow> string \<Rightarrow> string" where
  "join xs sep = join_loop sep [] 0 xs"

definition newline :: string where
  "newline = [CHR 0x0A]"

definition textToSpeak :: "TranslatedLine list \<Rightarrow> string" where
  "textToSpeak lines = join (map translated lines) newline"

definition voiceName :: "string \<Rightarrow> string" where
  "voiceName gender' =
     (let v = VOICES_NEUTRAL;
          v = (if gender' = ''MALE'' then VOICES_MALE else v);
          v = (if gender' = ''FEMALE'' then VOICES_FEMALE else v)
      in v)"

definition speech_request :: "TranslatedLine list \<Rightarrow> string \<Rightarrow> SpeechRequest" where
  "speech_request lines gender' =
     \<lparr> model = ''gemini-2.5-flash-preview-tts'',
       contents_text = textToSpeak lines,
       responseModalities = [''AUDIO''],
       prebuiltVoiceName = voiceName gender',
       safetySettings =
         [(''HARM_CATEGORY_HATE_SPEECH'', ''BLOCK_NONE''),
          (''HARM_CATEGORY_SEXUALLY_EXPLICIT'', ''BLOCK_NONE''),
          (''HARM_CATEGORY_HARASSMENT'', ''BLOCK_NONE''),
          (''HARM_CATEGORY_DANGEROUS_CONTENT'', ''BLOCK_NONE'')] \<rparr>"

text \<open>Optional chaining: \<^verbatim>\<open>response.candidates?.[0]\<close> and \<^verbatim>\<open>candidate?.content?.parts?.[0]\<close>.\<close>

definition first_candidate :: "Response \<Rightarrow> Candidate option" where
  "first_candidate response =
     (case candidates response of
        None \<Rightarrow> None
      | Some cs \<Rightarrow> (case cs of [] \<Rightarrow> None | c # _ \<Rightarrow> Some c))"

definition first_part :: "Candidate option \<Rightarrow> Part option" where
  "first_part candidate =
     (case candidate of
        None \<Rightarrow> None
      | Some c \<Rightarrow>
          (case content c of
             None \<Rightarrow> None
           | Some ct \<Rightarrow>
               (case parts ct of
                  None \<Rightarrow> None
                | Some ps \<Rightarrow> (case ps of [] \<Rightarrow> None | p # _ \<Rightarrow> Some p))))"

definition first_text :: "Candidate option \<Rightarrow> string option" where
  "first_text candidate =
     (case first_part candidate of None \<Rightarrow> None | Some p \<Rightarrow> part_text p)"

definition first_inline_data :: "Candidate option \<Rightarrow> string option" where
  "first_inline_data candidate =
     (case first_part candidate of
        None \<Rightarrow> None
      | Some p \<Rightarrow> (case inlineData p of None \<Rightarrow> None | Some d \<Rightarrow> data d))"

definition generateDubbedAudio ::
  "env \<Rightarrow> TranslatedLine list \<Rightarrow> string \<Rightarrow> string \<Rightarrow> js_error + object_url" where
  "generateDubbedAudio e lines gender' targetLanguage' =
     and_then (getAiClient e) (\<lambda>ai.
     and_then (foreign (speech_model e (speech_request lines gender'))) (\<lambda>response.
       let candidate = first_candidate response;
           refusal = first_text candidate;
           base64Audio = first_inline_data candidate
       in if \<not> truthy base64Audio then
            (if truthy refusal
             then Inl (ModelRefused (case refusal of Some t \<Rightarrow> t | None \<Rightarrow> []))
             else Inl (NoAudioData
                         (or_default (case candidate of None \<Rightarrow> None | Some c \<Rightarrow> finishReason c)
                            ''UNKNOWN'')))
          else createWavUrl (array_limit e) (atob e)
                 (case base64Audio of Some b \<Rightarrow> b | None \<Rightarrow> [])))"

section \<open>App.tsx: the component\<close>

subsection \<open>State\<close>

text \<open>
  The six state variables of the component, and with them the one piece of the browser that
  its handlers change: the store of object URLs.
\<close>

record App =
  state :: AppState
  songData :: SongData
  isPlayingOriginal :: bool
  isPlayingDubbed :: bool
  error :: "string option"
  isDubbingLoading :: bool
  objectURLs :: "object_url list"

text \<open>The arguments of the \<^verbatim>\<open>useState\<close> calls, lines 9 to 21; no object URL exists yet.\<close>

definition App_initial :: App where
  "App_initial =
     \<lparr> state = IDLE,
       songData = \<lparr> file' = None, audioUrl = None, analysis = None, translations' = [],
                    targetLanguage = ''Spanish'', dubbedAudioUrl = None \<rparr>,
       isPlayingOriginal = False,
       isPlayingDubbed = False,
       error = None,
       isDubbingLoading = False,
       objectURLs = [] \<rparr>"

subsection \<open>What a handler does, in program order\<close>

text \<open>
  A handler is the list of the state updates and gateway calls it performs, in the order
  of its statements. Each constructor is one statement form of the source:
  \<^verbatim>\<open>setState(s)\<close>, \<^verbatim>\<open>setSongData\<close> with the literal of \<^verbatim>\<open>resetApp\<close> or with one of the
  five spreads \<^verbatim>\<open>{...prev, field}\<close>, \<^verbatim>\<open>setError\<close>, \<^verbatim>\<open>setIsDubbingLoading\<close>, and a call of
  one of the three remote operations. The last two constructors are the platform's two
  operations on the store of object URLs: the source calls \<^verbatim>\<open>URL.createObjectURL\<close> twice
  (\<^verbatim>\<open>App.tsx\<close> line 51, \<^verbatim>\<open>gemini.ts\<close> line 172) and \<^verbatim>\<open>URL.revokeObjectURL\<close> nowhere.
\<close>

datatype gateway_call =
    AnalyzeAudio string string
  | TranslateLyrics "string list" string string int
  | GenerateDubbedAudio "TranslatedLine list" string string

datatype action =
    SetState AppState
  | SetSongData_reset
  | SetSongData_file File object_url
  | SetSongData_analysis AnalysisResult
  | SetSongData_translations "TranslatedLine list"
  | SetSongData_targetLanguage string
  | SetSongData_dubbedAudioUrl object_url
  | SetError "string option"
  | SetIsDubbingLoading bool
  | Call gateway_call
  | CreateObjectURL object_url
  | RevokeObjectURL object_url

fun apply_action :: "action \<Rightarrow> App \<Rightarrow> App" where
  "apply_action (SetState s) a = a\<lparr>state := s\<rparr>"
| "apply_action SetSongData_reset a =
     a\<lparr>songData := \<lparr> file' = None, audioUrl = None, analysis = None, translations' = [],
                       targetLanguage = ''Spanish'', dubbedAudioUrl = None \<rparr>\<rparr>"
| "apply_action (SetSongData_file f url) a =
     a\<lparr>songData := (songData a)\<lparr>file' := Some f, audioUrl := Some url\<rparr>\<rparr>"
| "apply_action (SetSongData_analysis r) a =
     a\<lparr>songData := (songData a)\<lparr>analysis := Some r\<rparr>\<rparr>"
| "apply_action (SetSongData_translations ts) a =
     a\<lparr>songData := (songData a)\<lparr>translations' := ts\<rparr>\<rparr>"
| "apply_action (SetSongData_targetLanguage code) a =
     a\<lparr>songData := (songData a)\<lparr>targetLanguage := code\<rparr>\<rparr>"
| "apply_action (SetSongData_dubbedAudioUrl url) a =
     a\<lparr>songData := (songData a)\<lparr>dubbedAudioUrl := Some url\<rparr>\<rparr>"
| "apply_action (SetError m) a = a\<lparr>error := m\<rparr>"
| "apply_action (SetIsDubbingLoading b) a = a\<lparr>isDubbingLoading := b\<rparr>"
| "apply_action (Call c) a = a"
| "apply_action (CreateObjectURL url) a = a\<lparr>objectURLs := objectURLs a @ [url]\<rparr>"
| "apply_action (RevokeObjectURL url) a = a\<lparr>objectURLs := remove1 url (objectURLs a)\<rparr>"

fun run :: "action list \<Rightarrow> App \<Rightarrow> App" where
  "run [] a = a"
| "run (x # xs) a = run xs (apply_action x a)"

fun calls :: "action list \<Rightarrow> gateway_call list" where
  "calls [] = []"
| "calls (Call c # xs) = c # calls xs"
| "calls (x # xs) = calls xs"

subsection \<open>The handlers\<close>

definition resetApp :: "action list" where
  "resetApp = [SetState IDLE, SetSongData_reset, SetError None, SetIsDubbingLoading False]"

text \<open>\<open>files\<close> is \<^verbatim>\<open>event.target.files?.[0]\<close>.\<close>

definition handleFileUpload :: "File option \<Rightarrow> action list" where
  "handleFileUpload files =
     (case files of
        None \<Rightarrow> []
      | Some f \<Rightarrow>
          if file_size f > 10 * 1024 * 1024
          then [SetError (Some ''File size must be less than 10MB for this demo.'')]
          else [CreateObjectURL (FileUrl f), SetSongData_file f (FileUrl f), SetError None])"

text \<open>
  The asynchronous handlers read \<^verbatim>\<open>songData\<close> from the render in which they were
  created: the argument \<open>a\<close>. When \<^verbatim>\<open>generateDubbedAudio\<close> returns a URL, its
  \<^verbatim>\<open>createWavUrl\<close> has entered that URL in the store.
\<close>

definition startAnalysis :: "env \<Rightarrow> App \<Rightarrow> action list" where
  "startAnalysis e a =
     (case file' (songData a) of
        None \<Rightarrow> []
      | Some f \<Rightarrow>
          SetState ANALYZING #
          (case fileToGenerativePart e f of
             Inl err \<Rightarrow>
               [SetError (Some (or_default (message err) ''Analysis failed. Please try again.'')),
                SetState IDLE]
           | Inr base64 \<Rightarrow>
               Call (AnalyzeAudio base64 (mime_type f)) #
               (case analyzeAudio e base64 (mime_type f) of
                  Inr analysis' \<Rightarrow> [SetSongData_analysis analysis', SetState LYRICS_REVIEW]
                | Inl err \<Rightarrow>
                    [SetError (Some (or_default (message err) ''Analysis failed. Please try again.'')),
                     SetState IDLE])))"

definition handleTranslate :: "env \<Rightarrow> App \<Rightarrow> action list" where
  "handleTranslate e a =
     (case analysis (songData a) of
        None \<Rightarrow> []
      | Some an \<Rightarrow>
          SetState ANALYZING #
          Call (TranslateLyrics (lyrics an) (targetLanguage (songData a)) (language an) (bpm an)) #
          (case translateLyrics e (lyrics an) (targetLanguage (songData a)) (language an) (bpm an) of
             Inr ts \<Rightarrow> [SetSongData_translations ts, SetState DUBBING]
           | Inl err \<Rightarrow>
               [SetError (Some (or_default (message err) ''Translation failed.'')),
                SetState LYRICS_REVIEW]))"

definition handleDubbing :: "env \<Rightarrow> App \<Rightarrow> action list" where
  "handleDubbing e a =
     (case analysis (songData a) of
        None \<Rightarrow> []
      | Some an \<Rightarrow>
          if length (translations' (songData a)) = 0 then []
          else
            [SetIsDubbingLoading True, SetError None,
             Call (GenerateDubbedAudio (translations' (songData a)) (gender an)
                     (targetLanguage (songData a)))] @
            (case generateDubbedAudio e (translations' (songData a)) (gender an)
                    (targetLanguage (songData a)) of
               Inr audioUrl' \<Rightarrow>
                 [CreateObjectURL audioUrl', SetSongData_dubbedAudioUrl audioUrl', SetState COMPLETE]
             | Inl err \<Rightarrow>
                 [SetError (Some (or_default (message err) ''Dubbing generation failed.''))]) @
            [SetIsDubbingLoading False])"

text \<open>The language buttons, line 306.\<close>

definition selectTargetLanguage :: "string \<Rightarrow> action list" where
  "selectTargetLanguage code = [SetSongData_targetLanguage code]"

subsection \<open>Triggers and executions\<close>

text \<open>
  The controls the render function offers in each state (the conditions on lines 160, 184,
  217, 254, 338 and 369), and the handler behind each. The synthesis button counts as offered
  whenever it is shown. The two playback buttons only flip the playing flags and are left
  out. An execution fires one offered trigger after the other, each handler running to its
  end before the next trigger.
\<close>

datatype trigger =
    SelectFile "File option"
  | StartAnalysis env
  | SelectTargetLanguage string
  | StartTranslation env
  | StartSynthesis env
  | Reset

fun offered :: "App \<Rightarrow> trigger \<Rightarrow> bool" where
  "offered a (SelectFile files) = (state a = IDLE)"
| "offered a (StartAnalysis e) = (state a = IDLE \<and> file' (songData a) \<noteq> None)"
| "offered a (SelectTargetLanguage code) =
     (state a = LYRICS_REVIEW \<and> analysis (songData a) \<noteq> None \<and> code \<in> set TARGET_LANGUAGES)"
| "offered a (StartTranslation e) = (state a = LYRICS_REVIEW \<and> analysis (songData a) \<noteq> None)"
| "offered a (StartSynthesis e) = (state a = DUBBING)"
| "offered a Reset = (state a \<noteq> IDLE)"

fun handler :: "trigger \<Rightarrow> App \<Rightarrow> action list" where
  "handler (SelectFile files) a = handleFileUpload files"
| "handler (StartAnalysis e) a = startAnalysis e a"
| "handler (SelectTargetLanguage code) a = selectTargetLanguage code"
| "handler (StartTranslation e) a = handleTranslate e a"
| "handler (StartSynthesis e) a = handleDubbing e a"
| "handler Reset a = resetApp"

text \<open>
  The states in which a handler performs an update of a given kind: for every update in
  the list that satisfies \<open>P\<close>, the value of \<open>state\<close> at the moment it is performed.
\<close>

fun states_at :: "(action \<Rightarrow> bool) \<Rightarrow> App \<Rightarrow> action list \<Rightarrow> AppState list" where
  "states_at P a [] = []"
| "states_at P a (x # xs) =
     (if P x then [state a] else []) @ states_at P (apply_action x a) xs"

fun execution_states_at :: "(action \<Rightarrow> bool) \<Rightarrow> App \<Rightarrow> trigger list \<Rightarrow> AppState list" where
  "execution_states_at P a [] = []"
| "execution_states_at P a (t # ts) =
     (if offered a t
      then states_at P a (handler t a) @ execution_states_at P (run (handler t a) a) ts
      else [])"

text \<open>
  While its remote call is outstanding an asynchronous handler is suspended: what precedes
  the call has run, what follows runs when the reply has come, on the state the component
  has then.
\<close>

fun until_await :: "action list \<Rightarrow> action list" where
  "until_await [] = []"
| "until_await (Call c # xs) = [Call c]"
| "until_await (x # xs) = x # until_await xs"

fun after_await :: "action list \<Rightarrow> action list" where
  "after_await [] = []"
| "after_await (Call c # xs) = xs"
| "after_await (x # xs) = after_await xs"

text \<open>
  Populating a field is storing a gateway result in it; restoring the initial empty value
  in \<^verbatim>\<open>resetApp\<close> is not.
\<close>

fun populates_translations :: "action \<Rightarrow> bool" where
  "populates_translations (SetSongData_translations ts) = True"
| "populates_translations x = False"

fun populates_dubbedAudioUrl :: "action \<Rightarrow> bool" where
  "populates_dubbedAudioUrl (SetSongData_dubbedAudioUrl url) = True"
| "populates_dubbedAudioUrl x = False"

text \<open>
  The object URLs the session refers to. A reference is one thing and the URL in the
  browser's store another: a handle is released when it is no longer in \<open>objectURLs\<close>.
\<close>

definition referenced_urls :: "SongData \<Rightarrow> object_url set" where
  "referenced_urls sd = set_option (audioUrl sd) \<union> set_option (dubbedAudioUrl sd)"

definition released :: "App \<Rightarrow> object_url \<Rightarrow> bool" where
  "released a url = (url \<notin> set (objectURLs a))"

section \<open>Observations and sample worlds\<close>


text \<open>
  A decoder described at one input: \<open>s0\<close> decodes to \<open>bs\<close>. It refuses every other
  string; the one other string it is asked about below is \<^verbatim>\<open>!!!!\<close>, which \<^verbatim>\<open>atob\<close>
  refuses.
\<close>

definition decodes_to :: "string \<Rightarrow> byte list \<Rightarrow> string \<Rightarrow> string option + byte list" where
  "decodes_to s0 bs s = (if s = s0 then Inr bs else Inl (Some ''InvalidCharacterError''))"


definition sample_file :: File where
  "sample_file = \<lparr> name = ''song.mp3'', file_size = 3145728, mime_type = ''audio/mpeg'' \<rparr>"

text \<open>A file of 12 MiB.\<close>

definition large_file :: File where
  "large_file = \<lparr> name = ''concert.wav'', file_size = 12582912, mime_type = ''audio/wav'' \<rparr>"

definition sample_analysis :: AnalysisResult where
  "sample_analysis =
     \<lparr> language = ''English'', genre = ''Pop'', bpm = 120, emotion = ''Romantic'',
       gender = ''FEMALE'', lyrics = [''hello'', ''world''], summary = ''A soft vocal.'' \<rparr>"

definition sample_lines :: "TranslatedLine list" where
  "sample_lines =
     [\<lparr> original = ''hello'', translated = ''hola'' \<rparr>,
      \<lparr> original = ''world'', translated = ''mundo'' \<rparr>]"

text \<open>A reply whose only part is text, and one whose first part has text and audio.\<close>

definition text_only_response :: "string \<Rightarrow> Response" where
  "text_only_response t =
     \<lparr> candidates = Some
         [\<lparr> content = Some \<lparr> parts = Some [\<lparr> part_text = Some t, inlineData = None \<rparr>] \<rparr>,
            finishReason = Some ''STOP'' \<rparr>] \<rparr>"

definition text_and_audio_response :: "string \<Rightarrow> string \<Rightarrow> Response" where
  "text_and_audio_response t b =
     \<lparr> candidates = Some
         [\<lparr> content = Some
              \<lparr> parts = Some
                  [\<lparr> part_text = Some t,
                     inlineData = Some \<lparr> mimeType = Some ''audio/L16;rate=24000'', data = Some b \<rparr> \<rparr>] \<rparr>,
            finishReason = Some ''STOP'' \<rparr>] \<rparr>"

text \<open>
  A world with a key and the array limit \<open>2\<^sup>2\<^sup>7\<close> in which reading, analysis and
  translation succeed and the speech model answers \<open>reply\<close>; and the same world with the
  analysis or the translation model failing.
\<close>

definition world :: "string option + Response \<Rightarrow> env" where
  "world reply =
     \<lparr> API_KEY = Some ''key'',
       array_limit = 134217728,
       read_file = (\<lambda>f. Inr ''AAEC''),
       analysis_model = (\<lambda>audioBase64 mimeType'. Inr (Some ''{...}'')),
       translation_model = (\<lambda>lyrics' target source bpm'. Inr (Some ''[...]'')),
       speech_model = (\<lambda>request. reply),
       parse_analysis = (\<lambda>t. Inr sample_analysis),
       parse_translations = (\<lambda>t. Inr sample_lines),
       atob = decodes_to ''AAEC'' [0, 1, 2] \<rparr>"

definition world_analysis_down :: env where
  "world_analysis_down =
     (world (Inl None))\<lparr>analysis_model := (\<lambda>audioBase64 mimeType'. Inl (Some ''503 Service Unavailable''))\<rparr>"

definition world_translation_down :: env where
  "world_translation_down =
     (world (Inl None))\<lparr>translation_model := (\<lambda>lyrics' target source bpm'. Inl (Some ''fetch failed''))\<rparr>"

text \<open>
  The states after selecting a file, after a successful analysis, after a successful
  translation, and after a successful synthesis.
\<close>

definition app_file_selected :: App where
  "app_file_selected = run (handleFileUpload (Some sample_file)) App_initial"

definition app_reviewing :: App where
  "app_reviewing = run (startAnalysis (world (Inl None)) app_file_selected) app_file_selected"

definition app_dubbing :: App where
  "app_dubbing = run (handleTranslate (world (Inl None)) app_reviewing) app_reviewing"

definition app_complete :: App where
  "app_complete =
     run (handleDubbing (world (Inr (text_and_audio_response ''ok'' ''AAEC''))) app_dubbing)
       app_dubbing"

section \<open>The specification's wording\<close>

text \<open>
  ``Concatenates all translated-line text (in sequence order, newline-joined) into a single
  utterance'': the texts in their order, a newline between each two neighbours.
\<close>

fun newline_joined :: "string list \<Rightarrow> string" where
  "newline_joined [] = []"
| "newline_joined [x] = x"
| "newline_joined (x # y # ys) = x @ [CHR 0x0A] @ newline_joined (y # ys)"

section \<open>The container encoder\<close>

lemma replicate_numeral_unfold: "replicate (numeral k) x = x # replicate (pred_numeral k) x"
  by (simp add: numeral_eq_Suc)


text \<open>The header never throws: all thirteen writes fit into the 44 bytes.\<close>

lemma wav_header_bytes:
  "wav_header n = Inr
     [0x52, 0x49, 0x46, 0x46,
      of_nat ((36 + n) mod 4294967296 mod 256), of_nat ((36 + n) mod 4294967296 div 256 mod 256),
      of_nat ((36 + n) mod 4294967296 div 65536 mod 256),
      of_nat ((36 + n) mod 4294967296 div 16777216 mod 256),
      0x57, 0x41, 0x56, 0x45, 0x66, 0x6D, 0x74, 0x20,
      16, 0, 0, 0, 1, 0, 1, 0,
      0xC0, 0x5D, 0, 0, 0x80, 0xBB, 0, 0,
      2, 0, 16, 0, 0x64, 0x61, 0x74, 0x61,
      of_nat (n mod 4294967296 mod 256), of_nat (n mod 4294967296 div 256 mod 256),
      of_nat (n mod 4294967296 div 65536 mod 256), of_nat (n mod 4294967296 div 16777216 mod 256)]"
  by (simp add: wav_header_def ArrayBuffer_def and_then_def setUint8_def setUint16_def setUint32_def
        sampleRate_def numChannels_def bitsPerSample_def Let_def replicate_numeral_unfold)

lemma wav_header_total: "\<exists>h. wav_header n = Inr h \<and> length h = 44"
  unfolding wav_header_bytes by simp

lemma copy_bytes: "map (of_nat \<circ> unat) bs = (bs :: byte list)"
  by (induction bs) simp_all

lemma createWavUrl_bytes:
  assumes "atob' s = Inr pcm" and "length pcm < lim" and "lim \<le> 4294967296"
  shows "\<exists>h. wav_header (length pcm) = Inr h \<and> length h = 44 \<and>
             createWavUrl lim atob' s = Inr (BlobUrl (h @ pcm) ''audio/wav'')"
proof -
  obtain h where h: "wav_header (length pcm) = Inr h" "length h = 44"
    using wav_header_total by blast
  have "createWavUrl lim atob' s = Inr (BlobUrl (h @ pcm) ''audio/wav'')"
    using assms h by (simp add: createWavUrl_def and_then_def foreign_def copy_bytes Let_def)
  with h show ?thesis by blast
qed

lemma createWavUrl_too_long:
  assumes "atob' s = Inr pcm" and "lim \<le> length pcm"
  shows "createWavUrl lim atob' s = Inl (RangeError ''Invalid array length'')"
  using assms by (simp add: createWavUrl_def and_then_def foreign_def min_def)






section \<open>The speech request\<close>

lemma join_loop_later:
  "k > 0 \<Longrightarrow> join_loop sep R k xs = R @ concat (map (\<lambda>x. sep @ x) xs)"
  by (induction xs arbitrary: R k) simp_all

lemma join_Cons: "join (x # xs) sep = x @ concat (map (\<lambda>y. sep @ y) xs)"
  by (simp add: join_def join_loop_later)

lemma newline_joined_Cons:
  "newline_joined (x # xs) = x @ concat (map (\<lambda>y. [CHR 0x0A] @ y) xs)"
  by (induction xs arbitrary: x) simp_all

lemma join_newline_joined: "join xs newline = newline_joined xs"
proof (cases xs)
  case Nil
  then show ?thesis by (simp add: join_def)
next
  case (Cons x xs')
  then show ?thesis by (simp only: join_Cons newline_joined_Cons newline_def)
qed

text \<open>
  Claim C3. For every sequence of translated lines and every gender value,
  \<^verbatim>\<open>generateDubbedAudio\<close> builds the request whose utterance is the translated texts in
  sequence order joined by newlines and whose voice is \<open>Fenrir\<close> for \<open>MALE\<close>, \<open>Kore\<close> for
  \<open>FEMALE\<close> and \<open>Puck\<close> for \<open>UNKNOWN\<close> and every other value, and sends it to the speech
  model: a model that fails on the requests with this utterance and this voice makes the
  function fail with that error, a model that answers them with a refusal makes it fail
  with that refusal, and two models that agree on them give the same outcome.
\<close>

theorem generateDubbedAudio_utterance_and_voice:
  "contents_text (speech_request lines g) = newline_joined (map translated lines) \<and>
   (g = ''MALE'' \<longrightarrow> prebuiltVoiceName (speech_request lines g) = VOICES_MALE) \<and>
   (g = ''FEMALE'' \<longrightarrow> prebuiltVoiceName (speech_request lines g) = VOICES_FEMALE) \<and>
   (g \<noteq> ''MALE'' \<and> g \<noteq> ''FEMALE'' \<longrightarrow>
      prebuiltVoiceName (speech_request lines g) = VOICES_NEUTRAL) \<and>
   (truthy (API_KEY e) \<and>
    (\<forall>r. contents_text r = newline_joined (map translated lines) \<and>
         prebuiltVoiceName r =
           (if g = ''MALE'' then ''Fenrir'' else if g = ''FEMALE'' then ''Kore'' else ''Puck'')
         \<longrightarrow> speech_model e r = Inl m)
    \<longrightarrow> generateDubbedAudio e lines g lang = Inl (Thrown m)) \<and>
   (truthy (API_KEY e) \<and>
    (\<forall>r. contents_text r = newline_joined (map translated lines) \<and>
         prebuiltVoiceName r =
           (if g = ''MALE'' then ''Fenrir'' else if g = ''FEMALE'' then ''Kore'' else ''Puck'')
         \<longrightarrow> speech_model e r = Inr response) \<and>
    first_text (first_candidate response) = Some t \<and> t \<noteq> [] \<and>
    \<not> truthy (first_inline_data (first_candidate response))
    \<longrightarrow> generateDubbedAudio e lines g lang = Inl (ModelRefused t)) \<and>
   (API_KEY e' = API_KEY e \<and> atob e' = atob e \<and> array_limit e' = array_limit e \<and>
    (\<forall>r. contents_text r = newline_joined (map translated lines) \<and>
         prebuiltVoiceName r =
           (if g = ''MALE'' then ''Fenrir'' else if g = ''FEMALE'' then ''Kore'' else ''Puck'')
         \<longrightarrow> speech_model e' r = speech_model e r)
    \<longrightarrow> generateDubbedAudio e' lines g lang = generateDubbedAudio e lines g lang)"
proof -
  let ?voice = "if g = ''MALE'' then ''Fenrir'' else if g = ''FEMALE'' then ''Kore'' else ''Puck''"
  have utterance: "contents_text (speech_request lines g) = newline_joined (map translated lines)"
    by (simp add: speech_request_def textToSpeak_def join_newline_joined)
  have voice: "prebuiltVoiceName (speech_request lines g) = ?voice"
    by (simp add: speech_request_def voiceName_def VOICES_MALE_def VOICES_FEMALE_def
          VOICES_NEUTRAL_def)
  have male: "g = ''MALE'' \<longrightarrow> prebuiltVoiceName (speech_request lines g) = VOICES_MALE"
    by (simp add: speech_request_def voiceName_def)
  have female: "g = ''FEMALE'' \<longrightarrow> prebuiltVoiceName (speech_request lines g) = VOICES_FEMALE"
    by (simp add: speech_request_def voiceName_def)
  have other: "g \<noteq> ''MALE'' \<and> g \<noteq> ''FEMALE'' \<longrightarrow>
      prebuiltVoiceName (speech_request lines g) = VOICES_NEUTRAL"
    by (simp add: speech_request_def voiceName_def)
  have fails: "truthy (API_KEY e) \<and>
    (\<forall>r. contents_text r = newline_joined (map translated lines) \<and> prebuiltVoiceName r = ?voice
         \<longrightarrow> speech_model e r = Inl m)
    \<longrightarrow> generateDubbedAudio e lines g lang = Inl (Thrown m)"
  proof
    assume a: "truthy (API_KEY e) \<and>
      (\<forall>r. contents_text r = newline_joined (map translated lines) \<and> prebuiltVoiceName r = ?voice
           \<longrightarrow> speech_model e r = Inl m)"
    then have "speech_model e (speech_request lines g) = Inl m"
      using utterance voice by blast
    with a show "generateDubbedAudio e lines g lang = Inl (Thrown m)"
      by (simp add: generateDubbedAudio_def getAiClient_def and_then_def foreign_def)
  qed
  have refuses: "truthy (API_KEY e) \<and>
    (\<forall>r. contents_text r = newline_joined (map translated lines) \<and> prebuiltVoiceName r = ?voice
         \<longrightarrow> speech_model e r = Inr response) \<and>
    first_text (first_candidate response) = Some t \<and> t \<noteq> [] \<and>
    \<not> truthy (first_inline_data (first_candidate response))
    \<longrightarrow> generateDubbedAudio e lines g lang = Inl (ModelRefused t)"
  proof
    assume a: "truthy (API_KEY e) \<and>
      (\<forall>r. contents_text r = newline_joined (map translated lines) \<and> prebuiltVoiceName r = ?voice
           \<longrightarrow> speech_model e r = Inr response) \<and>
      first_text (first_candidate response) = Some t \<and> t \<noteq> [] \<and>
      \<not> truthy (first_inline_data (first_candidate response))"
    then have "speech_model e (speech_request lines g) = Inr response"
      using utterance voice by blast
    with a show "generateDubbedAudio e lines g lang = Inl (ModelRefused t)"
      by (simp add: generateDubbedAudio_def getAiClient_def and_then_def foreign_def Let_def
            truthy_def)
  qed
  have only: "API_KEY e' = API_KEY e \<and> atob e' = atob e \<and> array_limit e' = array_limit e \<and>
    (\<forall>r. contents_text r = newline_joined (map translated lines) \<and> prebuiltVoiceName r = ?voice
         \<longrightarrow> speech_model e' r = speech_model e r)
    \<longrightarrow> generateDubbedAudio e' lines g lang = generateDubbedAudio e lines g lang"
  proof
    assume a: "API_KEY e' = API_KEY e \<and> atob e' = atob e \<and> array_limit e' = array_limit e \<and>
      (\<forall>r. contents_text r = newline_joined (map translated lines) \<and> prebuiltVoiceName r = ?voice
           \<longrightarrow> speech_model e' r = speech_model e r)"
    then have "speech_model e' (speech_request lines g) = speech_model e (speech_request lines g)"
      using utterance voice by blast
    with a show "generateDubbedAudio e' lines g lang = generateDubbedAudio e lines g lang"
      by (simp add: generateDubbedAudio_def getAiClient_def Let_def and_then_def
            split: sum.splits)
  qed
  from utterance male female other fails refuses only show ?thesis
    by (intro conjI)
qed

text \<open>
  A model out of quota fails the function with its error; the voices are the three of
  \<^verbatim>\<open>VOICES\<close>.
\<close>

theorem generateDubbedAudio_utterance_and_voice_witness:
  "contents_text (speech_request sample_lines ''MALE'') = ''hola'' @ [CHR 0x0A] @ ''mundo'' \<and>
   prebuiltVoiceName (speech_request sample_lines ''MALE'') = ''Fenrir'' \<and>
   prebuiltVoiceName (speech_request sample_lines ''FEMALE'') = ''Kore'' \<and>
   prebuiltVoiceName (speech_request sample_lines ''UNKNOWN'') = ''Puck'' \<and>
   prebuiltVoiceName (speech_request sample_lines ''male'') = ''Puck'' \<and>
   generateDubbedAudio (world (Inl (Some ''quota exceeded''))) sample_lines ''MALE'' ''Spanish''
     = Inl (Thrown (Some ''quota exceeded'')) \<and>
   generateDubbedAudio (world (Inr (text_only_response ''No.''))) sample_lines ''MALE'' ''Spanish''
     = Inl (ModelRefused ''No.'')"
proof -
  have voices: "prebuiltVoiceName (speech_request sample_lines ''MALE'') = ''Fenrir'' \<and>
     prebuiltVoiceName (speech_request sample_lines ''FEMALE'') = ''Kore'' \<and>
     prebuiltVoiceName (speech_request sample_lines ''UNKNOWN'') = ''Puck'' \<and>
     prebuiltVoiceName (speech_request sample_lines ''male'') = ''Puck'' \<and>
     contents_text (speech_request sample_lines ''MALE'') = ''hola'' @ [CHR 0x0A] @ ''mundo''"
    using generateDubbedAudio_utterance_and_voice [of sample_lines "''MALE''"]
      generateDubbedAudio_utterance_and_voice [of sample_lines "''FEMALE''"]
      generateDubbedAudio_utterance_and_voice [of sample_lines "''UNKNOWN''"]
      generateDubbedAudio_utterance_and_voice [of sample_lines "''male''"]
    by (simp add: sample_lines_def VOICES_MALE_def VOICES_FEMALE_def VOICES_NEUTRAL_def)
  have quota: "generateDubbedAudio (world (Inl (Some ''quota exceeded''))) sample_lines ''MALE''
       ''Spanish'' = Inl (Thrown (Some ''quota exceeded''))"
    using generateDubbedAudio_utterance_and_voice
            [of sample_lines "''MALE''" "world (Inl (Some ''quota exceeded''))"
                "Some ''quota exceeded''" "''Spanish''"]
    by (simp add: world_def truthy_def)
  have text_reply:
    "first_text (first_candidate (text_only_response ''No.'')) = Some ''No.'' \<and>
     \<not> truthy (first_inline_data (first_candidate (text_only_response ''No.'')))"
    by (simp add: text_only_response_def first_text_def first_inline_data_def first_part_def
          first_candidate_def truthy_def)
  have refusal: "generateDubbedAudio (world (Inr (text_only_response ''No.''))) sample_lines
       ''MALE'' ''Spanish'' = Inl (ModelRefused ''No.'')"
    using generateDubbedAudio_utterance_and_voice
            [of sample_lines "''MALE''" "world (Inr (text_only_response ''No.''))" _ "''Spanish''"
                "text_only_response ''No.''" "''No.''"]
      text_reply
    by (simp add: world_def truthy_def)
  from voices quota refusal show ?thesis by simp
qed

section \<open>Refusals and audio\<close>

lemma generateDubbedAudio_refusal:
  assumes "truthy (API_KEY e)"
    and "speech_model e (speech_request lines g) = Inr response"
    and "first_text (first_candidate response) = Some t"
    and "t \<noteq> []"
    and "\<not> truthy (first_inline_data (first_candidate response))"
  shows "generateDubbedAudio e lines g lang = Inl (ModelRefused t)"
  using assms
  by (simp add: generateDubbedAudio_def getAiClient_def and_then_def foreign_def Let_def truthy_def)





section \<open>The handlers\<close>

lemma or_default_nonempty: "d \<noteq> [] \<Longrightarrow> or_default m d \<noteq> []"
  by (simp add: or_default_def split: option.splits)

text \<open>How the sample worlds answer, and the sample states written out.\<close>

lemma fileToGenerativePart_world: "fileToGenerativePart (world r) f = Inr ''AAEC''"
  by (simp add: fileToGenerativePart_def world_def foreign_def)

lemma analyzeAudio_world: "analyzeAudio (world r) b m = Inr sample_analysis"
  by (simp add: analyzeAudio_def world_def getAiClient_def truthy_def and_then_def foreign_def)

lemma translateLyrics_world: "translateLyrics (world r) l t s b = Inr sample_lines"
  by (simp add: translateLyrics_def world_def getAiClient_def truthy_def and_then_def foreign_def)

lemma generateDubbedAudio_world_audio:
  "generateDubbedAudio (world (Inr (text_and_audio_response t ''AAEC''))) ls g lang
     = createWavUrl 134217728 (decodes_to ''AAEC'' [0, 1, 2]) ''AAEC''"
  by (simp add: generateDubbedAudio_def getAiClient_def and_then_def foreign_def Let_def truthy_def
        world_def text_and_audio_response_def first_text_def first_part_def
        first_candidate_def first_inline_data_def)

lemma createWavUrl_sample:
  "\<exists>h. createWavUrl 134217728 (decodes_to ''AAEC'' [0, 1, 2]) ''AAEC''
         = Inr (BlobUrl (h @ [0, 1, 2]) ''audio/wav'')"
  using createWavUrl_bytes [of "decodes_to ''AAEC'' [0, 1, 2]" "''AAEC''" "[0, 1, 2]" 134217728]
  by (auto simp: decodes_to_def)

lemma app_file_selected_eq:
  "app_file_selected =
     App_initial\<lparr>songData := (songData App_initial)\<lparr>file' := Some sample_file,
                     audioUrl := Some (FileUrl sample_file)\<rparr>,
                 objectURLs := [FileUrl sample_file]\<rparr>"
  by (simp add: app_file_selected_def handleFileUpload_def sample_file_def App_initial_def)

lemma app_reviewing_eq:
  "app_reviewing =
     app_file_selected\<lparr>songData := (songData app_file_selected)\<lparr>analysis := Some sample_analysis\<rparr>,
                        state := LYRICS_REVIEW\<rparr>"
  by (simp add: app_reviewing_def startAnalysis_def app_file_selected_eq analyzeAudio_world
        fileToGenerativePart_world App_initial_def)

lemma app_dubbing_eq:
  "app_dubbing =
     app_reviewing\<lparr>songData := (songData app_reviewing)\<lparr>translations' := sample_lines\<rparr>,
                    state := DUBBING\<rparr>"
  by (simp add: app_dubbing_def handleTranslate_def app_reviewing_eq translateLyrics_world
        app_file_selected_eq App_initial_def)

lemma app_complete_eq:
  "\<exists>h. app_complete =
     app_dubbing\<lparr>songData := (songData app_dubbing)
                       \<lparr>dubbedAudioUrl := Some (BlobUrl (h @ [0, 1, 2]) ''audio/wav'')\<rparr>,
                   error := None, state := COMPLETE,
                   objectURLs := [FileUrl sample_file, BlobUrl (h @ [0, 1, 2]) ''audio/wav'']\<rparr>"
proof -
  obtain h where h: "createWavUrl 134217728 (decodes_to ''AAEC'' [0, 1, 2]) ''AAEC''
      = Inr (BlobUrl (h @ [0, 1, 2]) ''audio/wav'')"
    using createWavUrl_sample by blast
  have "app_complete =
     app_dubbing\<lparr>songData := (songData app_dubbing)
                       \<lparr>dubbedAudioUrl := Some (BlobUrl (h @ [0, 1, 2]) ''audio/wav'')\<rparr>,
                   error := None, state := COMPLETE,
                   objectURLs := [FileUrl sample_file, BlobUrl (h @ [0, 1, 2]) ''audio/wav'']\<rparr>"
    by (simp add: app_complete_def handleDubbing_def generateDubbedAudio_world_audio h
          app_dubbing_eq app_reviewing_eq app_file_selected_eq App_initial_def sample_lines_def)
  then show ?thesis by blast
qed

text \<open>
  Claim C4. Whenever \<^verbatim>\<open>startAnalysis\<close> is triggered with a selected file, the file is read
  and \<^verbatim>\<open>analyzeAudio\<close> fails with any error, the session data are left as they were, so an
  unset \<open>analysis\<close> remains unset, the state ends in \<open>IDLE\<close>, and \<open>error\<close> holds a message
  that is not empty: the error's own, or the fixed one when it has none.
\<close>

theorem startAnalysis_failure:
  assumes "file' (songData a) = Some f"
    and "fileToGenerativePart e f = Inr base64"
    and "analyzeAudio e base64 (mime_type f) = Inl err"
  shows "songData (run (startAnalysis e a) a) = songData a \<and>
         (analysis (songData a) = None \<longrightarrow>
            analysis (songData (run (startAnalysis e a) a)) = None) \<and>
         state (run (startAnalysis e a) a) = IDLE \<and>
         error (run (startAnalysis e a) a) =
           Some (or_default (message err) ''Analysis failed. Please try again.'') \<and>
         or_default (message err) ''Analysis failed. Please try again.'' \<noteq> []"
  using assms by (simp add: startAnalysis_def or_default_nonempty)

theorem startAnalysis_failure_witness:
  "file' (songData app_file_selected) = Some sample_file \<and>
   fileToGenerativePart world_analysis_down sample_file = Inr ''AAEC'' \<and>
   analyzeAudio world_analysis_down ''AAEC'' (mime_type sample_file)
     = Inl (Thrown (Some ''503 Service Unavailable'')) \<and>
   analysis (songData (run (startAnalysis world_analysis_down app_file_selected) app_file_selected))
     = None \<and>
   state (run (startAnalysis world_analysis_down app_file_selected) app_file_selected) = IDLE \<and>
   error (run (startAnalysis world_analysis_down app_file_selected) app_file_selected)
     = Some ''503 Service Unavailable''"
proof -
  have f: "file' (songData app_file_selected) = Some sample_file"
    by (simp add: app_file_selected_eq)
  have r: "fileToGenerativePart world_analysis_down sample_file = Inr ''AAEC''"
    by (simp add: fileToGenerativePart_def world_analysis_down_def world_def foreign_def)
  have x: "analyzeAudio world_analysis_down ''AAEC'' (mime_type sample_file)
     = Inl (Thrown (Some ''503 Service Unavailable''))"
    by (simp add: analyzeAudio_def world_analysis_down_def world_def getAiClient_def truthy_def
          and_then_def foreign_def)
  have n: "analysis (songData app_file_selected) = None"
    by (simp add: app_file_selected_eq App_initial_def)
  show ?thesis
    using startAnalysis_failure [OF f r x] f r x n by (simp add: or_default_def)
qed

text \<open>
  Claim C5. Whenever \<^verbatim>\<open>handleTranslate\<close> is triggered with an analysis present and
  \<^verbatim>\<open>translateLyrics\<close> fails with any error, the session data are left as they were, so empty
  \<open>translations\<close> remain empty and the stored analysis is unchanged, the state ends in
  \<open>LYRICS_REVIEW\<close>, and \<open>error\<close> holds a message that is not empty.
\<close>

theorem handleTranslate_failure:
  assumes "analysis (songData a) = Some an"
    and "translateLyrics e (lyrics an) (targetLanguage (songData a)) (language an) (bpm an) = Inl err"
  shows "songData (run (handleTranslate e a) a) = songData a \<and>
         (translations' (songData a) = [] \<longrightarrow>
            translations' (songData (run (handleTranslate e a) a)) = []) \<and>
         analysis (songData (run (handleTranslate e a) a)) = Some an \<and>
         state (run (handleTranslate e a) a) = LYRICS_REVIEW \<and>
         error (run (handleTranslate e a) a) = Some (or_default (message err) ''Translation failed.'') \<and>
         or_default (message err) ''Translation failed.'' \<noteq> []"
  using assms by (simp add: handleTranslate_def or_default_nonempty)

theorem handleTranslate_failure_witness:
  "analysis (songData app_reviewing) = Some sample_analysis \<and>
   translateLyrics world_translation_down (lyrics sample_analysis)
       (targetLanguage (songData app_reviewing)) (language sample_analysis) (bpm sample_analysis)
     = Inl (Thrown (Some ''fetch failed'')) \<and>
   translations' (songData (run (handleTranslate world_translation_down app_reviewing) app_reviewing))
     = [] \<and>
   analysis (songData (run (handleTranslate world_translation_down app_reviewing) app_reviewing))
     = Some sample_analysis \<and>
   state (run (handleTranslate world_translation_down app_reviewing) app_reviewing) = LYRICS_REVIEW \<and>
   error (run (handleTranslate world_translation_down app_reviewing) app_reviewing)
     = Some ''fetch failed''"
proof -
  have f: "analysis (songData app_reviewing) = Some sample_analysis"
    by (simp add: app_reviewing_eq)
  have x: "translateLyrics world_translation_down (lyrics sample_analysis)
       (targetLanguage (songData app_reviewing)) (language sample_analysis) (bpm sample_analysis)
     = Inl (Thrown (Some ''fetch failed''))"
    by (simp add: translateLyrics_def world_translation_down_def world_def getAiClient_def truthy_def
          and_then_def foreign_def)
  have n: "translations' (songData app_reviewing) = []"
    by (simp add: app_reviewing_eq app_file_selected_eq App_initial_def)
  show ?thesis
    using handleTranslate_failure [OF f x] f x n by (simp add: or_default_def)
qed

text \<open>
  No handler revokes an object URL, and so the store only grows.
\<close>

lemma handler_never_revokes: "RevokeObjectURL url \<notin> set (handler t a)"
  by (cases t)
     (auto simp: handleFileUpload_def startAnalysis_def selectTargetLanguage_def
        handleTranslate_def handleDubbing_def resetApp_def
        split: option.splits sum.splits if_splits)

lemma run_keeps_object_urls:
  "\<forall>url. RevokeObjectURL url \<notin> set xs \<Longrightarrow> set (objectURLs a) \<subseteq> set (objectURLs (run xs a))"
proof (induction xs arbitrary: a)
  case Nil
  show ?case by simp
next
  case (Cons x xs)
  have step: "set (objectURLs a) \<subseteq> set (objectURLs (apply_action x a))"
    using Cons.prems by (cases x) auto
  have rest: "set (objectURLs (apply_action x a)) \<subseteq> set (objectURLs (run xs (apply_action x a)))"
    using Cons.IH [of "apply_action x a"] Cons.prems by simp
  from step rest show ?case by auto
qed

text \<open>
  Claim C6, as the code has it. From any state and any session contents, \<^verbatim>\<open>resetApp\<close> puts
  the state machine in \<open>IDLE\<close>, gives the six session fields, \<open>error\<close> and the loading flag
  the values they had at the start, and drops the session's references to the file and to
  both object URLs. It revokes nothing: every object URL created so far is still in the
  browser's store afterwards.
\<close>

theorem resetApp_restores:
  "state (run resetApp a) = IDLE \<and>
   state (run resetApp a) = state App_initial \<and>
   songData (run resetApp a) = songData App_initial \<and>
   error (run resetApp a) = error App_initial \<and>
   isDubbingLoading (run resetApp a) = isDubbingLoading App_initial \<and>
   file' (songData (run resetApp a)) = None \<and>
   referenced_urls (songData (run resetApp a)) = {} \<and>
   objectURLs (run resetApp a) = objectURLs a"
  by (simp add: resetApp_def App_initial_def referenced_urls_def)

theorem resetApp_restores_witness:
  "state app_complete = COMPLETE \<and>
   audioUrl (songData app_complete) \<noteq> None \<and>
   dubbedAudioUrl (songData app_complete) \<noteq> None \<and>
   state (run resetApp app_complete) = IDLE \<and>
   songData (run resetApp app_complete) = songData App_initial \<and>
   error (run resetApp app_complete) = None \<and>
   \<not> isDubbingLoading (run resetApp app_complete) \<and>
   referenced_urls (songData (run resetApp app_complete)) = {} \<and>
   length (objectURLs (run resetApp app_complete)) = 2"
proof -
  obtain h where e: "app_complete =
     app_dubbing\<lparr>songData := (songData app_dubbing)
                       \<lparr>dubbedAudioUrl := Some (BlobUrl (h @ [0, 1, 2]) ''audio/wav'')\<rparr>,
                   error := None, state := COMPLETE,
                   objectURLs := [FileUrl sample_file, BlobUrl (h @ [0, 1, 2]) ''audio/wav'']\<rparr>"
    using app_complete_eq by blast
  have before: "state app_complete = COMPLETE \<and>
      audioUrl (songData app_complete) \<noteq> None \<and>
      dubbedAudioUrl (songData app_complete) \<noteq> None \<and>
      length (objectURLs app_complete) = 2"
    unfolding e by (simp add: app_dubbing_eq app_reviewing_eq app_file_selected_eq)
  show ?thesis
    using resetApp_restores [of app_complete] before
    by (simp add: App_initial_def referenced_urls_def)
qed

text \<open>
  Claim C6 as stated, that the reset releases the handles the session holds, fails after a
  completed run: the Reset button is offered, the session holds the URL of the file and the
  URL of the dubbed audio, and after \<^verbatim>\<open>resetApp\<close> neither is released.
\<close>

theorem resetApp_releases_nothing_counterexample:
  "offered app_complete Reset \<and>
   audioUrl (songData app_complete) = Some (FileUrl sample_file) \<and>
   dubbedAudioUrl (songData app_complete) \<noteq> None \<and>
   \<not> released (run resetApp app_complete) (FileUrl sample_file) \<and>
   referenced_urls (songData app_complete) \<subseteq> set (objectURLs (run resetApp app_complete))"
proof -
  obtain h where e: "app_complete =
     app_dubbing\<lparr>songData := (songData app_dubbing)
                       \<lparr>dubbedAudioUrl := Some (BlobUrl (h @ [0, 1, 2]) ''audio/wav'')\<rparr>,
                   error := None, state := COMPLETE,
                   objectURLs := [FileUrl sample_file, BlobUrl (h @ [0, 1, 2]) ''audio/wav'']\<rparr>"
    using app_complete_eq by blast
  show ?thesis
    unfolding e
    by (simp add: app_dubbing_eq app_reviewing_eq app_file_selected_eq App_initial_def
          resetApp_def referenced_urls_def released_def)
qed

text \<open>
  Claim C7. For every selected file of more than \<open>10 \<times> 1024 \<times> 1024\<close> bytes,
  \<^verbatim>\<open>handleFileUpload\<close> records the size error and does nothing else: the state is the one it
  was (\<open>IDLE\<close>, where the file input is shown), the session data are untouched, and no
  remote operation is called.
\<close>

theorem handleFileUpload_too_large:
  assumes "file_size f > 10 * 1024 * 1024"
  shows "state (run (handleFileUpload (Some f)) a) = state a \<and>
         songData (run (handleFileUpload (Some f)) a) = songData a \<and>
         error (run (handleFileUpload (Some f)) a) =
           Some ''File size must be less than 10MB for this demo.'' \<and>
         calls (handleFileUpload (Some f)) = []"
  using assms by (simp add: handleFileUpload_def)

theorem handleFileUpload_too_large_witness:
  "file_size large_file > 10 * 1024 * 1024 \<and>
   state (run (handleFileUpload (Some large_file)) App_initial) = IDLE \<and>
   songData (run (handleFileUpload (Some large_file)) App_initial) = songData App_initial \<and>
   error (run (handleFileUpload (Some large_file)) App_initial) =
     Some ''File size must be less than 10MB for this demo.'' \<and>
   calls (handleFileUpload (Some large_file)) = []"
proof -
  have big: "file_size large_file > 10 * 1024 * 1024"
    by (simp add: large_file_def)
  show ?thesis
    using handleFileUpload_too_large [OF big, of App_initial] big by (simp add: App_initial_def)
qed

text \<open>
  Claim C8. Whenever the speech response has a text that is not empty in its first part and
  no inline audio data, \<^verbatim>\<open>generateDubbedAudio\<close> fails with the error whose message ends in
  that text, and \<^verbatim>\<open>handleDubbing\<close> leaves the state as it was (\<open>DUBBING\<close>, where the button
  is shown), leaves the session data untouched, records that message and clears the
  loading flag.
\<close>

theorem refusal_keeps_DUBBING:
  assumes "analysis (songData a) = Some an"
    and "translations' (songData a) \<noteq> []"
    and "truthy (API_KEY e)"
    and "speech_model e (speech_request (translations' (songData a)) (gender an)) = Inr response"
    and "first_text (first_candidate response) = Some t"
    and "t \<noteq> []"
    and "\<not> truthy (first_inline_data (first_candidate response))"
  shows "generateDubbedAudio e (translations' (songData a)) (gender an) (targetLanguage (songData a))
           = Inl (ModelRefused t) \<and>
         message (ModelRefused t) = Some (''Model refused or failed to generate audio: '' @ t) \<and>
         state (run (handleDubbing e a) a) = state a \<and>
         songData (run (handleDubbing e a) a) = songData a \<and>
         error (run (handleDubbing e a) a)
           = Some (''Model refused or failed to generate audio: '' @ t) \<and>
         \<not> isDubbingLoading (run (handleDubbing e a) a)"
proof -
  have g: "generateDubbedAudio e (translations' (songData a)) (gender an) (targetLanguage (songData a))
           = Inl (ModelRefused t)"
    using assms(3-7) by (rule generateDubbedAudio_refusal)
  show ?thesis using assms(1,2) g by (simp add: handleDubbing_def or_default_def)
qed

theorem refusal_keeps_DUBBING_witness:
  "state app_dubbing = DUBBING \<and>
   generateDubbedAudio (world (Inr (text_only_response ''I cannot sing this.'')))
       (translations' (songData app_dubbing)) (gender sample_analysis)
       (targetLanguage (songData app_dubbing))
     = Inl (ModelRefused ''I cannot sing this.'') \<and>
   state (run (handleDubbing (world (Inr (text_only_response ''I cannot sing this.''))) app_dubbing)
            app_dubbing) = DUBBING \<and>
   error (run (handleDubbing (world (Inr (text_only_response ''I cannot sing this.''))) app_dubbing)
            app_dubbing)
     = Some ''Model refused or failed to generate audio: I cannot sing this.'' \<and>
   \<not> isDubbingLoading
       (run (handleDubbing (world (Inr (text_only_response ''I cannot sing this.''))) app_dubbing)
          app_dubbing)"
proof -
  let ?e = "world (Inr (text_only_response ''I cannot sing this.''))"
  have a: "analysis (songData app_dubbing) = Some sample_analysis"
    by (simp add: app_dubbing_eq app_reviewing_eq)
  have t: "translations' (songData app_dubbing) \<noteq> []"
    by (simp add: app_dubbing_eq sample_lines_def)
  have k: "truthy (API_KEY ?e)"
    by (simp add: world_def truthy_def)
  have m: "speech_model ?e (speech_request (translations' (songData app_dubbing)) (gender sample_analysis))
     = Inr (text_only_response ''I cannot sing this.'')"
    by (simp add: world_def)
  have x: "first_text (first_candidate (text_only_response ''I cannot sing this.''))
     = Some ''I cannot sing this.''"
    by (simp add: text_only_response_def first_text_def first_part_def first_candidate_def)
  have ne: "''I cannot sing this.'' \<noteq> []"
    by simp
  have d: "\<not> truthy (first_inline_data (first_candidate (text_only_response ''I cannot sing this.'')))"
    by (simp add: text_only_response_def first_inline_data_def first_part_def first_candidate_def
          truthy_def)
  have s: "state app_dubbing = DUBBING"
    by (simp add: app_dubbing_eq)
  show ?thesis
    using refusal_keeps_DUBBING [OF a t k m x ne d] s by simp
qed

text \<open>
  Claim C10. A pipeline trigger without its required data does nothing: \<^verbatim>\<open>startAnalysis\<close>
  with no file, \<^verbatim>\<open>handleTranslate\<close> with no analysis, and \<^verbatim>\<open>handleDubbing\<close> with no
  analysis or with no translated line leave the whole component state as it was and call
  no remote operation.
\<close>

theorem required_data_missing_noop:
  "(file' (songData a) = None \<longrightarrow>
      run (startAnalysis e a) a = a \<and> calls (startAnalysis e a) = []) \<and>
   (analysis (songData a) = None \<longrightarrow>
      run (handleTranslate e a) a = a \<and> calls (handleTranslate e a) = []) \<and>
   (analysis (songData a) = None \<or> translations' (songData a) = [] \<longrightarrow>
      run (handleDubbing e a) a = a \<and> calls (handleDubbing e a) = [])"
  by (auto simp: startAnalysis_def handleTranslate_def handleDubbing_def split: option.splits)

theorem required_data_missing_noop_witness:
  "file' (songData App_initial) = None \<and>
   analysis (songData App_initial) = None \<and>
   translations' (songData app_reviewing) = [] \<and>
   run (startAnalysis (world (Inl None)) App_initial) App_initial = App_initial \<and>
   calls (startAnalysis (world (Inl None)) App_initial) = [] \<and>
   run (handleTranslate (world (Inl None)) App_initial) App_initial = App_initial \<and>
   calls (handleTranslate (world (Inl None)) App_initial) = [] \<and>
   run (handleDubbing (world (Inl None)) App_initial) App_initial = App_initial \<and>
   calls (handleDubbing (world (Inl None)) App_initial) = [] \<and>
   run (handleDubbing (world (Inl None)) app_reviewing) app_reviewing = app_reviewing \<and>
   calls (handleDubbing (world (Inl None)) app_reviewing) = []"
proof -
  have f: "file' (songData App_initial) = None" "analysis (songData App_initial) = None"
    by (simp_all add: App_initial_def)
  have t: "translations' (songData app_reviewing) = []"
    by (simp add: app_reviewing_eq app_file_selected_eq App_initial_def)
  show ?thesis
    using required_data_missing_noop [of App_initial "world (Inl None)"]
      required_data_missing_noop [of app_reviewing "world (Inl None)"] f t
    by simp
qed

section \<open>Where the fields are populated\<close>

lemma states_at_append:
  "states_at P a (xs @ ys) = states_at P a xs @ states_at P (run xs a) ys"
  by (induction xs arbitrary: a) simp_all

lemma handler_translations_state:
  "set (states_at populates_translations a (handler t a)) \<subseteq> {ANALYZING}"
  by (cases t)
     (simp_all add: handleFileUpload_def startAnalysis_def selectTargetLanguage_def
        handleTranslate_def handleDubbing_def resetApp_def states_at_append
        split: option.splits sum.splits)

lemma handler_dubbedAudioUrl_state:
  "offered a t \<Longrightarrow> set (states_at populates_dubbedAudioUrl a (handler t a)) \<subseteq> {DUBBING}"
  by (cases t)
     (simp_all add: handleFileUpload_def startAnalysis_def selectTargetLanguage_def
        handleTranslate_def handleDubbing_def resetApp_def states_at_append
        split: option.splits sum.splits)

text \<open>
  Outside such executions: the Reset button is shown while the translation call is
  outstanding, and nothing cancels the call. When the reply comes after a reset, the
  translations are stored while the state is \<open>IDLE\<close>, and the component ends in
  \<open>DUBBING\<close> without an analysis.
\<close>

lemma reset_during_translation:
  "offered (run (until_await (handleTranslate (world (Inl None)) app_reviewing)) app_reviewing) Reset \<and>
   states_at populates_translations
     (run resetApp (run (until_await (handleTranslate (world (Inl None)) app_reviewing)) app_reviewing))
     (after_await (handleTranslate (world (Inl None)) app_reviewing)) = [IDLE] \<and>
   state (run (after_await (handleTranslate (world (Inl None)) app_reviewing))
     (run resetApp (run (until_await (handleTranslate (world (Inl None)) app_reviewing)) app_reviewing)))
     = DUBBING \<and>
   analysis (songData (run (after_await (handleTranslate (world (Inl None)) app_reviewing))
     (run resetApp (run (until_await (handleTranslate (world (Inl None)) app_reviewing)) app_reviewing))))
     = None"
  by (simp add: handleTranslate_def app_reviewing_eq translateLyrics_world resetApp_def)

text \<open>
  Claim C2, as the code has it. In every execution that fires offered triggers one after
  the other, from any state and so from the initial one, \<open>translations\<close> is populated only
  while the state is \<open>ANALYZING\<close>, hence never while it is \<open>IDLE\<close>, and \<open>dubbedAudioUrl\<close> is
  populated only while the state is \<open>DUBBING\<close>, hence never while it is \<open>LYRICS_REVIEW\<close>.
\<close>

theorem populating_states:
  "set (execution_states_at populates_translations a ts) \<subseteq> {ANALYZING} \<and>
   IDLE \<notin> set (execution_states_at populates_translations a ts) \<and>
   set (execution_states_at populates_dubbedAudioUrl a ts) \<subseteq> {DUBBING} \<and>
   LYRICS_REVIEW \<notin> set (execution_states_at populates_dubbedAudioUrl a ts)"
proof -
  have t: "set (execution_states_at populates_translations a ts) \<subseteq> {ANALYZING}"
  proof (induction ts arbitrary: a)
    case Nil
    show ?case by simp
  next
    case (Cons t ts)
    show ?case using handler_translations_state [of a t] Cons.IH [of "run (handler t a) a"]
      by (cases "offered a t") auto
  qed
  have d: "set (execution_states_at populates_dubbedAudioUrl a ts) \<subseteq> {DUBBING}"
  proof (induction ts arbitrary: a)
    case Nil
    show ?case by simp
  next
    case (Cons t ts)
    show ?case using handler_dubbedAudioUrl_state [of a t] Cons.IH [of "run (handler t a) a"]
      by (cases "offered a t") auto
  qed
  from t d show ?thesis by auto
qed

text \<open>The full pipeline from the initial state: the dubbed audio is stored in \<open>DUBBING\<close>.\<close>

theorem populating_states_witness:
  "execution_states_at populates_dubbedAudioUrl App_initial
     [SelectFile (Some sample_file),
      StartAnalysis (world (Inl None)),
      StartTranslation (world (Inl None)),
      StartSynthesis (world (Inr (text_and_audio_response ''ok'' ''AAEC'')))] = [DUBBING] \<and>
   IDLE \<notin> set (execution_states_at populates_translations App_initial
     [SelectFile (Some sample_file),
      StartAnalysis (world (Inl None)),
      StartTranslation (world (Inl None)),
      StartSynthesis (world (Inr (text_and_audio_response ''ok'' ''AAEC'')))])"
proof -
  obtain h where h: "createWavUrl 134217728 (decodes_to ''AAEC'' [0, 1, 2]) ''AAEC''
      = Inr (BlobUrl (h @ [0, 1, 2]) ''audio/wav'')"
    using createWavUrl_sample by blast
  have d: "execution_states_at populates_dubbedAudioUrl App_initial
     [SelectFile (Some sample_file),
      StartAnalysis (world (Inl None)),
      StartTranslation (world (Inl None)),
      StartSynthesis (world (Inr (text_and_audio_response ''ok'' ''AAEC'')))] = [DUBBING]"
    by (simp add: handleFileUpload_def sample_file_def startAnalysis_def fileToGenerativePart_world
          analyzeAudio_world handleTranslate_def translateLyrics_world handleDubbing_def
          generateDubbedAudio_world_audio h sample_lines_def App_initial_def)
  show ?thesis
    using populating_states [of App_initial
     "[SelectFile (Some sample_file),
      StartAnalysis (world (Inl None)),
      StartTranslation (world (Inl None)),
      StartSynthesis (world (Inr (text_and_audio_response ''ok'' ''AAEC'')))]"] d
    by simp
qed

text \<open>
  Claim C2 as stated fails in the plain run that selects a file, analyses it and translates:
  \<^verbatim>\<open>handleTranslate\<close> sets \<open>ANALYZING\<close> on line 74 and stores the translations on line 82,
  before line 83 sets \<open>DUBBING\<close>.
\<close>

theorem translations_populated_while_ANALYZING_counterexample:
  "execution_states_at populates_translations App_initial
     [SelectFile (Some sample_file),
      StartAnalysis (world (Inl None)),
      StartTranslation (world (Inl None))] = [ANALYZING]"
  by (simp add: handleFileUpload_def sample_file_def startAnalysis_def fileToGenerativePart_world
        analyzeAudio_world handleTranslate_def translateLyrics_world App_initial_def)

end
